theory Spec2Isabelle
  imports Complex_Main
begin

section \<open>Data model\<close>

text \<open>
  The development embeds \<^verbatim>\<open>grutopia/core/gym_env.py\<close>: the class \<^verbatim>\<open>Env\<close>, a gym
  environment for a single simulated environment with a single learning agent.

  The collaborators of \<^verbatim>\<open>Env\<close> (the runner, the space utility, the simulation app) live
  outside the embedded file. They are parameters of the model: records of functions that
  may return a value or raise, and that thread their own state. Nothing is assumed about
  what they compute.
\<close>

subsection \<open>Exceptions\<close>

text \<open>
  The three \<^verbatim>\<open>ValueError\<close>s of \<^verbatim>\<open>Env._validate\<close> carry the values their messages
  interpolate:
  \<^item> \<^verbatim>\<open>'Only support single env now, but env num is {env_num}'\<close>
  \<^item> \<^verbatim>\<open>'Only support single agent now, but episode requires {len(episode.robots)} agents'\<close>
  \<^item> \<^verbatim>\<open>'Only support single agent now, but episode requires multiple agents'\<close>

  \<open>KeyError\<close> is a failed dictionary subscript, with the missing key;
  \<open>Raised\<close> is an exception of a collaborator, passing through \<^verbatim>\<open>Env\<close> uncaught.
\<close>

datatype 'x error =
    ValueError_env_num int
  | ValueError_agents nat
  | ValueError_multiple_agents
  | KeyError string
  | Raised 'x

subsection \<open>Configuration and runtime\<close>

text \<open>
  The configuration is modelled by the fields \<^verbatim>\<open>Env\<close> reads, in the shape
  \<^verbatim>\<open>ValidatedConfig\<close> gives them: \<^verbatim>\<open>task_config.type\<close>,
  \<^verbatim>\<open>task_config.episodes[i].robots[j].name\<close>. The robot configurations of
  \<^verbatim>\<open>grutopia_extension/configs/robots\<close> declare \<^verbatim>\<open>name: Optional[str]\<close>, so a name
  is a \<open>string option\<close>.
  The parse \<^verbatim>\<open>ValidatedConfig(**self._runtime.config)\<close> and the subscripts
  \<^verbatim>\<open>config['task_config']['type']\<close> are taken to succeed: a runtime of the model is one
  whose configuration has this shape.
\<close>

record RobotCfg =
  name :: "string option"

record EpisodeCfg =
  robots :: "RobotCfg list"

record TaskCfg =
  type :: string
  episodes :: "EpisodeCfg list"

record Config =
  task_config :: TaskCfg

record 'app SimulatorRuntime =
  env_num :: int
  config :: Config
  simulation_app :: 'app

subsection \<open>The runner and the other collaborators\<close>

text \<open>
  A robot's observation is a dictionary; the runner's observations are keyed by task name,
  then by robot name. The descriptor of a task has a \<^verbatim>\<open>name\<close> (and further fields, which
  the record extension stands for).
\<close>

record TaskRuntime =
  name :: string

type_synonym 'v obs = "string \<rightharpoonup> 'v"
type_synonym 'v origin_obs = "string \<rightharpoonup> (string \<rightharpoonup> 'v obs)"
type_synonym 'a actions = "string \<rightharpoonup> (string \<rightharpoonup> 'a)"
type_synonym 'm info = "string \<rightharpoonup> 'm TaskRuntime_scheme"

text \<open>
  The methods of \<^verbatim>\<open>SimulatorRunner\<close> that \<^verbatim>\<open>Env\<close> calls, over a runner state \<open>'r\<close>.
  A method returns its result, or the exception it raised, together with the runner's next state.
  \<^verbatim>\<open>dt\<close> and \<^verbatim>\<open>current_tasks\<close> are attributes; of \<^verbatim>\<open>current_tasks\<close> only the task names
  are kept.
\<close>

record ('r, 'a, 'v, 'm, 'x) SimulatorRunner =
  runner_reset :: "string option \<Rightarrow> 'r \<Rightarrow> ('x + 'v origin_obs \<times> 'm TaskRuntime_scheme option) \<times> 'r"
  runner_step :: "'a actions \<Rightarrow> 'r \<Rightarrow> ('x + 'v origin_obs \<times> (string \<rightharpoonup> bool)) \<times> 'r"
  runner_get_obs :: "'r \<Rightarrow> ('x + 'v origin_obs) \<times> 'r"
  runner_dt :: "'r \<Rightarrow> real"
  runner_current_tasks :: "'r \<Rightarrow> string list"

text \<open>The module \<^verbatim>\<open>grutopia.core.util.space\<close>: both lookups may raise.\<close>

record ('sp, 'x) space =
  get_action_space_by_task :: "string \<Rightarrow> 'x + 'sp"
  get_observation_space_by_task :: "string \<Rightarrow> 'x + 'sp"

subsection \<open>The environment object\<close>

text \<open>
  The attributes of a constructed \<^verbatim>\<open>Env\<close>, without their leading underscore
  (\<^verbatim>\<open>_render\<close> is \<open>is_render\<close>, after the property that reads it). \<^verbatim>\<open>_robot_name\<close> is
  \<^verbatim>\<open>None\<close> only inside \<^verbatim>\<open>__init__\<close>; \<^verbatim>\<open>_validate\<close> makes it a string before the
  object is returned.
\<close>

record ('r, 'sp, 'app) Env =
  is_render :: "unit option"
  runtime :: "'app SimulatorRuntime"
  robot_name :: string
  current_task_name :: "string option"
  action_space :: 'sp
  observation_space :: 'sp
  runner :: 'r

section \<open>Operations\<close>

subsection \<open>Python primitives\<close>

text \<open>\<^verbatim>\<open>d[k]\<close> on a dictionary with string keys.\<close>

definition getitem :: "(string \<rightharpoonup> 'b) \<Rightarrow> string \<Rightarrow> 'x error + 'b" where
  "getitem d k = (case d k of None \<Rightarrow> Inl (KeyError k) | Some v \<Rightarrow> Inr v)"

text \<open>What an f-string writes for a value that is \<^verbatim>\<open>None\<close> or a \<^verbatim>\<open>str\<close>.\<close>

definition format_optional_str :: "string option \<Rightarrow> string" where
  "format_optional_str v = (case v of None \<Rightarrow> ''None'' | Some s \<Rightarrow> s)"

definition RESET_INFO_TASK_RUNTIME :: string where
  "RESET_INFO_TASK_RUNTIME = ''task_runtime''"

subsection \<open>Construction\<close>

text \<open>
  The loop of \<^verbatim>\<open>Env._validate\<close> over \<^verbatim>\<open>config.task_config.episodes\<close>; the second
  argument \<open>robot_name'\<close> is the local variable \<^verbatim>\<open>robot_name\<close>, \<^verbatim>\<open>None\<close> at the start.
\<close>

fun validate_episodes :: "EpisodeCfg list \<Rightarrow> string option \<Rightarrow> 'x error + string option" where
  "validate_episodes [] robot_name' = Inr robot_name'"
| "validate_episodes (episode # rest) robot_name' =
    (if length (robots episode) \<noteq> 1 then Inl (ValueError_agents (length (robots episode)))
     else if robot_name' = None then validate_episodes rest (RobotCfg.name (robots episode ! 0))
     else if robot_name' \<noteq> RobotCfg.name (robots episode ! 0) then Inl ValueError_multiple_agents
     else validate_episodes rest robot_name')"

text \<open>
  \<^verbatim>\<open>Env._validate\<close>: the value returned is the one assigned to \<^verbatim>\<open>self._robot_name\<close>,
  \<^verbatim>\<open>f'{robot_name}_{0}'\<close>.
\<close>

definition validate :: "'app SimulatorRuntime \<Rightarrow> 'x error + string" where
  "validate simulator_runtime =
    (if env_num simulator_runtime > 1 then Inl (ValueError_env_num (env_num simulator_runtime))
     else case validate_episodes (episodes (task_config (config simulator_runtime))) None of
       Inl e \<Rightarrow> Inl e
     | Inr robot_name' \<Rightarrow> Inr (format_optional_str robot_name' @ ''_'' @ ''0''))"

text \<open>
  \<^verbatim>\<open>Env.__init__\<close>: the two spaces are resolved from the task type, then \<^verbatim>\<open>_validate\<close>
  runs, then the runner is constructed (the second argument is the constructor of
  \<^verbatim>\<open>SimulatorRunner\<close>). The first exception ends the construction.
\<close>

definition init ::
  "('sp, 'x) space \<Rightarrow> ('app SimulatorRuntime \<Rightarrow> 'x + 'r) \<Rightarrow> 'app SimulatorRuntime
    \<Rightarrow> 'x error + ('r, 'sp, 'app) Env" where
  "init sp new_runner simulator_runtime =
    (case get_action_space_by_task sp (type (task_config (config simulator_runtime))) of
       Inl e \<Rightarrow> Inl (Raised e)
     | Inr act_space \<Rightarrow>
    (case get_observation_space_by_task sp (type (task_config (config simulator_runtime))) of
       Inl e \<Rightarrow> Inl (Raised e)
     | Inr obs_space \<Rightarrow>
    (case validate simulator_runtime of
       Inl e \<Rightarrow> Inl e
     | Inr rname \<Rightarrow>
    (case new_runner simulator_runtime of
       Inl e \<Rightarrow> Inl (Raised e)
     | Inr r \<Rightarrow>
        Inr \<lparr>is_render = None, runtime = simulator_runtime, robot_name = rname,
             current_task_name = None, action_space = act_space,
             observation_space = obs_space, runner = r\<rparr>))))"

subsection \<open>Reset\<close>

text \<open>
  \<^verbatim>\<open>Env.reset\<close>; \<^verbatim>\<open>seed\<close> and \<^verbatim>\<open>options\<close> are never read and are left out. The task
  name is assigned before the observation is looked up, so a failed lookup leaves it
  assigned.
\<close>

definition reset ::
  "('r, 'a, 'v, 'm, 'x) SimulatorRunner \<Rightarrow> ('r, 'sp, 'app) Env
    \<Rightarrow> ('x error + 'v obs \<times> 'm info) \<times> ('r, 'sp, 'app) Env" where
  "reset R self =
    (let obs = Map.empty; info = Map.empty in
     case runner_reset R (current_task_name self) (runner self) of
       (Inl e, r) \<Rightarrow> (Inl (Raised e), self\<lparr>runner := r\<rparr>)
     | (Inr (origin_obs, task_runtime), r) \<Rightarrow>
        (let self = self\<lparr>runner := r\<rparr> in
         case task_runtime of
           None \<Rightarrow> (Inr (obs, info), self)
         | Some tr \<Rightarrow>
            (let self = self\<lparr>current_task_name := Some (TaskRuntime.name tr)\<rparr>;
                 info = info(RESET_INFO_TASK_RUNTIME \<mapsto> tr) in
             case getitem origin_obs (TaskRuntime.name tr) of
               Inl e \<Rightarrow> (Inl e, self)
             | Inr robots_obs \<Rightarrow>
                (case getitem robots_obs (robot_name self) of
                   Inl e \<Rightarrow> (Inl e, self)
                 | Inr obs \<Rightarrow> (Inr (obs, info), self)))))"

subsection \<open>Step\<close>

text \<open>
  \<^verbatim>\<open>Env.step\<close>. The result is \<^verbatim>\<open>(obs, reward, terminated, truncated, info)\<close> or the
  exception raised, with the object as the call leaves it.
\<close>

type_synonym ('v, 'm) step_result = "'v obs \<times> real \<times> bool \<times> bool \<times> 'm info"

definition step ::
  "('r, 'a, 'v, 'm, 'x) SimulatorRunner \<Rightarrow> 'a \<Rightarrow> ('r, 'sp, 'app) Env
    \<Rightarrow> ('x error + ('v, 'm) step_result) \<times> ('r, 'sp, 'app) Env" where
  "step R action self =
    (let obs = Map.empty; reward = 0; terminated = True; truncated = False; info = Map.empty in
     case current_task_name self of
       None \<Rightarrow> (Inr (obs, reward, terminated, truncated, info), self)
     | Some task \<Rightarrow>
        (let actions = [task \<mapsto> [robot_name self \<mapsto> action]] in
         case runner_step R actions (runner self) of
           (Inl e, r) \<Rightarrow> (Inl (Raised e), self\<lparr>runner := r\<rparr>)
         | (Inr (origin_obs, terminated_status), r) \<Rightarrow>
            (let self = self\<lparr>runner := r\<rparr> in
             case getitem origin_obs task of
               Inl e \<Rightarrow> (Inl e, self)
             | Inr robots_obs \<Rightarrow>
                (case getitem robots_obs (robot_name self) of
                   Inl e \<Rightarrow> (Inl e, self)
                 | Inr obs \<Rightarrow>
                    (case getitem terminated_status task of
                       Inl e \<Rightarrow> (Inl e, self)
                     | Inr terminated \<Rightarrow>
                        (Inr (obs, reward, terminated, truncated, info), self))))))"

subsection \<open>Auxiliary queries\<close>

definition get_dt :: "('r, 'a, 'v, 'm, 'x) SimulatorRunner \<Rightarrow> ('r, 'sp, 'app) Env \<Rightarrow> real" where
  "get_dt R self = runner_dt R (runner self)"

definition get_observations ::
  "('r, 'a, 'v, 'm, 'x) SimulatorRunner \<Rightarrow> ('r, 'sp, 'app) Env
    \<Rightarrow> ('x error + 'v obs) \<times> ('r, 'sp, 'app) Env" where
  "get_observations R self =
    (case current_task_name self of
       None \<Rightarrow> (Inr Map.empty, self)
     | Some task \<Rightarrow>
        (case runner_get_obs R (runner self) of
           (Inl e, r) \<Rightarrow> (Inl (Raised e), self\<lparr>runner := r\<rparr>)
         | (Inr obs, r) \<Rightarrow>
            (let self = self\<lparr>runner := r\<rparr> in
             case getitem obs task of
               Inl e \<Rightarrow> (Inl e, self)
             | Inr robots_obs \<Rightarrow>
                (case getitem robots_obs (robot_name self) of
                   Inl e \<Rightarrow> (Inl e, self)
                 | Inr robot_obs \<Rightarrow> (Inr robot_obs, self)))))"

text \<open>\<^verbatim>\<open>Env.render\<close> is \<^verbatim>\<open>pass\<close>.\<close>

definition render :: "('r, 'sp, 'app) Env \<Rightarrow> string \<Rightarrow> unit" where
  "render self mode = ()"

text \<open>
  \<^verbatim>\<open>Env.close\<close> calls \<^verbatim>\<open>self._runtime.simulation_app.close()\<close>; the first argument is
  that method: the exception it raised, if any, and the app as it leaves it.
\<close>

definition close ::
  "('app \<Rightarrow> 'x option \<times> 'app) \<Rightarrow> ('r, 'sp, 'app) Env \<Rightarrow> 'x error option \<times> ('r, 'sp, 'app) Env" where
  "close app_close self =
    (case app_close (simulation_app (runtime self)) of
       (e, app) \<Rightarrow> (map_option Raised e, self\<lparr>runtime := (runtime self)\<lparr>simulation_app := app\<rparr>\<rparr>))"

definition finished :: "('r, 'a, 'v, 'm, 'x) SimulatorRunner \<Rightarrow> ('r, 'sp, 'app) Env \<Rightarrow> bool" where
  "finished R self = (length (runner_current_tasks R (runner self)) = 0)"

subsection \<open>Lifetime of an environment\<close>

text \<open>
  The calls a user can make on a constructed \<^verbatim>\<open>Env\<close>, and the object each of them leaves;
  a lifetime is a list of calls, made in order. A call that raises leaves the object as
  it was at the raise.
\<close>

datatype 'a call = Reset | Step 'a | Get_observations | Get_dt | Finished | Close | Render string

fun do_call ::
  "('r, 'a, 'v, 'm, 'x) SimulatorRunner \<Rightarrow> ('app \<Rightarrow> 'x option \<times> 'app) \<Rightarrow> 'a call
    \<Rightarrow> ('r, 'sp, 'app) Env \<Rightarrow> ('r, 'sp, 'app) Env" where
  "do_call R app_close Reset self = snd (reset R self)"
| "do_call R app_close (Step action) self = snd (step R action self)"
| "do_call R app_close Get_observations self = snd (get_observations R self)"
| "do_call R app_close Get_dt self = (let dt = get_dt R self in self)"
| "do_call R app_close Finished self = (let b = finished R self in self)"
| "do_call R app_close Close self = snd (close app_close self)"
| "do_call R app_close (Render mode) self = (let u = render self mode in self)"

fun do_calls ::
  "('r, 'a, 'v, 'm, 'x) SimulatorRunner \<Rightarrow> ('app \<Rightarrow> 'x option \<times> 'app) \<Rightarrow> 'a call list
    \<Rightarrow> ('r, 'sp, 'app) Env \<Rightarrow> ('r, 'sp, 'app) Env" where
  "do_calls R app_close [] self = self"
| "do_calls R app_close (c # cs) self = do_calls R app_close cs (do_call R app_close c self)"

section \<open>Example inputs\<close>

text \<open>
  Concrete configurations, collaborators and objects, on which the properties below are
  evaluated. Exceptions of collaborators are strings, spaces are strings, the simulation
  app is a flag that says whether it has been closed.
\<close>

definition jetbot :: RobotCfg where
  "jetbot = \<lparr>RobotCfg.name = Some ''jetbot''\<rparr>"

definition aliengo :: RobotCfg where
  "aliengo = \<lparr>RobotCfg.name = Some ''aliengo''\<rparr>"

definition example_runtime :: "int \<Rightarrow> string \<Rightarrow> RobotCfg list list \<Rightarrow> bool SimulatorRuntime" where
  "example_runtime n task_type robot_lists =
    \<lparr>env_num = n,
     config = \<lparr>task_config = \<lparr>type = task_type,
                               episodes = map (\<lambda>rs. \<lparr>robots = rs\<rparr>) robot_lists\<rparr>\<rparr>,
     simulation_app = False\<rparr>"

text \<open>A space utility that knows one task type.\<close>

definition example_space :: "(string, string) space" where
  "example_space =
    \<lparr>get_action_space_by_task =
       (\<lambda>t. if t = ''SingleInferenceTask'' then Inr ''action space'' else Inl ''unknown task type''),
     get_observation_space_by_task =
       (\<lambda>t. if t = ''SingleInferenceTask'' then Inr ''observation space''
            else Inl ''unknown task type'')\<rparr>"

text \<open>
  A runner with one task \<open>T\<close> and one robot \<open>jetbot_0\<close>. Its state is the list of the action
  maps its \<open>step\<close> has received; \<open>step\<close> raises unless the map has an action for \<open>T\<close> and
  \<open>jetbot_0\<close>, it answers with that action as the observation and reports \<open>T\<close> terminated.
\<close>

definition recording_runner :: "(string actions list, string, string, unit, string) SimulatorRunner" where
  "recording_runner =
    \<lparr>runner_reset =
       (\<lambda>task r. (Inr ([''T'' \<mapsto> [''jetbot_0'' \<mapsto> [''position'' \<mapsto> ''origin'']]],
                       Some \<lparr>TaskRuntime.name = ''T''\<rparr>), r)),
     runner_step =
       (\<lambda>acts r. case acts ''T'' of
           None \<Rightarrow> (Inl ''no action for the task'', r)
         | Some m \<Rightarrow> (case m ''jetbot_0'' of
             None \<Rightarrow> (Inl ''no action for the robot'', r)
           | Some a \<Rightarrow> (Inr ([''T'' \<mapsto> [''jetbot_0'' \<mapsto> [''last_action'' \<mapsto> a]]],
                            [''T'' \<mapsto> True]), r @ [acts]))),
     runner_get_obs = (\<lambda>r. (Inr [''T'' \<mapsto> [''jetbot_0'' \<mapsto> [''position'' \<mapsto> ''origin'']]], r)),
     runner_dt = (\<lambda>r. 1),
     runner_current_tasks = (\<lambda>r. [''T''])\<rparr>"

text \<open>A runner with no task left: \<open>reset\<close> has no descriptor to give, \<open>step\<close> raises.\<close>

definition exhausted_runner :: "(string actions list, string, string, unit, string) SimulatorRunner" where
  "exhausted_runner =
    \<lparr>runner_reset = (\<lambda>task r. (Inr (Map.empty, None), r)),
     runner_step = (\<lambda>acts r. (Inl ''no task is running'', r @ [acts])),
     runner_get_obs = (\<lambda>r. (Inr Map.empty, r)),
     runner_dt = (\<lambda>r. 1),
     runner_current_tasks = (\<lambda>r. [])\<rparr>"

definition example_new_runner :: "bool SimulatorRuntime \<Rightarrow> string + string actions list" where
  "example_new_runner simulator_runtime = Inr []"

definition example_app_close :: "bool \<Rightarrow> string option \<times> bool" where
  "example_app_close app = (None, True)"

text \<open>The object constructed for one episode with the robot \<open>jetbot\<close>, with a given active task.\<close>

definition example_env :: "string option \<Rightarrow> (string actions list, string, bool) Env" where
  "example_env task =
    \<lparr>is_render = None,
     runtime = example_runtime 1 ''SingleInferenceTask'' [[jetbot]],
     robot_name = ''jetbot_0'',
     current_task_name = task,
     action_space = ''action space'',
     observation_space = ''observation space'',
     runner = []\<rparr>"

section \<open>Properties\<close>

subsection \<open>The example inputs\<close>

text \<open>The example object is the one the constructor builds.\<close>

lemma example_env_constructed:
  "init example_space example_new_runner (example_runtime 1 ''SingleInferenceTask'' [[jetbot]])
     = Inr (example_env None)"
  by (simp add: init_def validate_def example_space_def example_new_runner_def
      example_runtime_def example_env_def jetbot_def format_optional_str_def)

lemma example_spaces:
  "get_action_space_by_task example_space (type (task_config (config (example_runtime n ''SingleInferenceTask'' rs))))
     = Inr ''action space''"
  "get_observation_space_by_task example_space (type (task_config (config (example_runtime n ''SingleInferenceTask'' rs))))
     = Inr ''observation space''"
  by (simp_all add: example_space_def example_runtime_def)

subsection \<open>Construction\<close>

text \<open>\<^verbatim>\<open>_validate\<close> raises nothing but its three \<^verbatim>\<open>ValueError\<close>s.\<close>

lemma validate_episodes_error:
  "validate_episodes eps acc = Inl e \<Longrightarrow>
     (\<exists>n. e = ValueError_agents n \<and> n \<noteq> 1) \<or> e = ValueError_multiple_agents"
  by (induction eps arbitrary: acc) (auto split: if_splits)

lemma validate_error:
  "validate rt = Inl e \<Longrightarrow>
     (e = ValueError_env_num (env_num rt) \<and> 1 < env_num rt) \<or>
     (env_num rt \<le> 1 \<and> ((\<exists>n. e = ValueError_agents n \<and> n \<noteq> 1) \<or> e = ValueError_multiple_agents))"
  by (auto simp: validate_def split: if_splits sum.splits dest: validate_episodes_error)

text \<open>Once both spaces are resolved, the construction is \<^verbatim>\<open>_validate\<close>, then the runner.\<close>

lemma init_after_spaces:
  assumes "get_action_space_by_task sp (type (task_config (config rt))) = Inr a"
    and "get_observation_space_by_task sp (type (task_config (config rt))) = Inr b"
  shows "init sp new_runner rt =
    (case validate rt of
       Inl e \<Rightarrow> Inl e
     | Inr rname \<Rightarrow>
        (case new_runner rt of
           Inl e \<Rightarrow> Inl (Raised e)
         | Inr r \<Rightarrow>
            Inr \<lparr>is_render = None, runtime = rt, robot_name = rname,
                 current_task_name = None, action_space = a,
                 observation_space = b, runner = r\<rparr>))"
  using assms by (simp add: init_def)

lemma init_robot_name:
  assumes "init (sp :: ('sp, 'x) space) new_runner rt = Inr self"
  shows "validate rt = (Inr (robot_name self) :: 'x error + string)"
  using assms by (auto simp: init_def split: sum.splits)

text \<open>The loop over a list of episodes in two parts.\<close>

lemma validate_episodes_append:
  "validate_episodes (xs @ ys) acc =
     (case validate_episodes xs acc of Inl e \<Rightarrow> Inl e | Inr acc' \<Rightarrow> validate_episodes ys acc')"
  by (induction xs arbitrary: acc) simp_all

lemma validate_episodes_same_name:
  assumes "\<forall>e\<in>set pre. \<exists>r. robots e = [r] \<and> RobotCfg.name r = n"
    and "acc = None \<or> acc = n"
  shows "\<exists>acc'. validate_episodes pre acc = (Inr acc' :: 'x error + string option)"
  using assms
proof (induction pre arbitrary: acc)
  case Nil
  then show ?case by simp
next
  case (Cons e pre)
  from Cons.prems(1) obtain r where r: "robots e = [r]" "RobotCfg.name r = n"
    by auto
  from Cons.prems(1) have rest: "\<forall>e\<in>set pre. \<exists>r. robots e = [r] \<and> RobotCfg.name r = n"
    by simp
  show ?case
  proof (cases "acc = None")
    case True
    have "\<exists>acc'. validate_episodes pre n = (Inr acc' :: 'x error + string option)"
      by (rule Cons.IH [OF rest]) simp
    with True r show ?thesis by simp
  next
    case False
    with Cons.prems(2) have "acc = n" by simp
    moreover have "\<exists>acc'. validate_episodes pre n = (Inr acc' :: 'x error + string option)"
      by (rule Cons.IH [OF rest]) simp
    ultimately show ?thesis using r False by auto
  qed
qed

lemma validate_episodes_other_name:
  assumes "\<forall>e\<in>set eps. length (robots e) = 1"
    and "e \<in> set eps"
    and "RobotCfg.name (robots e ! 0) \<noteq> Some c"
  shows "validate_episodes eps (Some c) = (Inl ValueError_multiple_agents :: 'x error + string option)"
  using assms by (induction eps) auto

lemma validate_episodes_two_names:
  assumes "\<forall>e\<in>set eps. length (robots e) = 1"
    and "e1 \<in> set eps" and "e2 \<in> set eps"
    and "RobotCfg.name (robots e1 ! 0) = Some n1"
    and "RobotCfg.name (robots e2 ! 0) = Some n2"
    and "n1 \<noteq> n2"
  shows "validate_episodes eps None = (Inl ValueError_multiple_agents :: 'x error + string option)"
  using assms
proof (induction eps)
  case Nil
  then show ?case by simp
next
  case (Cons e eps)
  have len: "length (robots e) = 1" and rest: "\<forall>e\<in>set eps. length (robots e) = 1"
    using Cons.prems(1) by simp_all
  show ?case
  proof (cases "RobotCfg.name (robots e ! 0)")
    case None
    with Cons.prems have "e1 \<in> set eps" "e2 \<in> set eps" by auto
    then have "validate_episodes eps None = (Inl ValueError_multiple_agents :: 'x error + string option)"
      using Cons.IH rest Cons.prems(4,5,6) by blast
    with None len show ?thesis by simp
  next
    case (Some c)
    have "\<exists>e'\<in>set eps. RobotCfg.name (robots e' ! 0) \<noteq> Some c"
    proof (cases "n1 = c")
      case True
      with Cons.prems(6) have "RobotCfg.name (robots e2 ! 0) \<noteq> Some c"
        using Cons.prems(5) by simp
      moreover from this Some Cons.prems(3) have "e2 \<in> set eps" by auto
      ultimately show ?thesis by blast
    next
      case False
      then have "RobotCfg.name (robots e1 ! 0) \<noteq> Some c"
        using Cons.prems(4) by simp
      moreover from this Some Cons.prems(2) have "e1 \<in> set eps" by auto
      ultimately show ?thesis by blast
    qed
    then obtain e' where "e' \<in> set eps" "RobotCfg.name (robots e' ! 0) \<noteq> Some c"
      by blast
    then have "validate_episodes eps (Some c) = (Inl ValueError_multiple_agents :: 'x error + string option)"
      using validate_episodes_other_name [OF rest] by blast
    with Some len show ?thesis by simp
  qed
qed

lemma validate_episodes_named:
  assumes "\<forall>e\<in>set eps. \<forall>r\<in>set (robots e). RobotCfg.name r = Some N"
    and "validate_episodes eps acc = (Inr rn :: 'x error + string option)"
    and "acc = Some N \<or> (acc = None \<and> eps \<noteq> [])"
  shows "rn = Some N"
  using assms
proof (induction eps arbitrary: acc)
  case Nil
  then show ?case by simp
next
  case (Cons e eps)
  have len: "length (robots e) = 1"
    using Cons.prems(2) by (simp split: if_splits)
  then have "robots e ! 0 \<in> set (robots e)"
    by simp
  then have nm: "RobotCfg.name (robots e ! 0) = Some N"
    using Cons.prems(1) by simp
  have rest: "\<forall>e\<in>set eps. \<forall>r\<in>set (robots e). RobotCfg.name r = Some N"
    using Cons.prems(1) by simp
  have "validate_episodes eps (Some N) = (Inr rn :: 'x error + string option)"
    using Cons.prems(2,3) len nm by (auto split: if_splits)
  then show ?case
    using Cons.IH [OF rest] by blast
qed

text \<open>
  C1, as stated, fails at \<^verbatim>\<open>env_num = 0\<close>: the guard of \<^verbatim>\<open>_validate\<close> is
  \<^verbatim>\<open>env_num > 1\<close>, and a runtime with no environment, one episode and one robot is
  accepted.
\<close>

theorem env_num_zero_accepted:
  "env_num (example_runtime 0 ''SingleInferenceTask'' [[jetbot]]) \<noteq> 1 \<and>
   init example_space example_new_runner (example_runtime 0 ''SingleInferenceTask'' [[jetbot]])
     = Inr ((example_env None)\<lparr>runtime := example_runtime 0 ''SingleInferenceTask'' [[jetbot]]\<rparr>)"
  by (simp add: init_def validate_def example_space_def example_new_runner_def
      example_runtime_def example_env_def jetbot_def format_optional_str_def)

text \<open>
  C1 (amended). For every runtime whose \<^verbatim>\<open>env_num\<close> is greater than 1, \<^verbatim>\<open>_validate\<close>
  raises the single-env \<^verbatim>\<open>ValueError\<close> with that \<^verbatim>\<open>env_num\<close>, and so does the
  construction once the space utility has resolved the task type. A runtime whose
  \<^verbatim>\<open>env_num\<close> is 1 or less never gets this error.
\<close>

theorem multi_env_rejected:
  assumes "get_action_space_by_task (sp :: ('sp, 'x) space) (type (task_config (config rt))) = Inr a"
    and "get_observation_space_by_task sp (type (task_config (config rt))) = Inr b"
  shows "(1 < env_num rt \<longrightarrow>
            validate rt = (Inl (ValueError_env_num (env_num rt)) :: 'x error + string) \<and>
            init sp new_runner rt = Inl (ValueError_env_num (env_num rt))) \<and>
         (env_num rt \<le> 1 \<longrightarrow>
            validate rt \<noteq> (Inl (ValueError_env_num n) :: 'x error + string) \<and>
            init sp new_runner rt \<noteq> Inl (ValueError_env_num n))"
proof (intro conjI impI)
  assume gt: "1 < env_num rt"
  then show v: "validate rt = (Inl (ValueError_env_num (env_num rt)) :: 'x error + string)"
    by (simp add: validate_def)
  show "init sp new_runner rt = Inl (ValueError_env_num (env_num rt))"
    using gt by (simp add: init_after_spaces [OF assms] validate_def)
next
  assume le: "env_num rt \<le> 1"
  show nv: "validate rt \<noteq> (Inl (ValueError_env_num n) :: 'x error + string)"
    using le validate_error [of rt "ValueError_env_num n"] by auto
  show "init sp new_runner rt \<noteq> Inl (ValueError_env_num n)"
    using nv by (auto simp: init_after_spaces [OF assms] split: sum.splits)
qed

theorem multi_env_rejected_witness:
  "1 < env_num (example_runtime 2 ''SingleInferenceTask'' [[jetbot]]) \<and>
   init example_space example_new_runner (example_runtime 2 ''SingleInferenceTask'' [[jetbot]])
     = Inl (ValueError_env_num 2) \<and>
   env_num (example_runtime 0 ''SingleInferenceTask'' [[jetbot]]) \<le> 1 \<and>
   init example_space example_new_runner (example_runtime 0 ''SingleInferenceTask'' [[jetbot]])
     \<noteq> Inl (ValueError_env_num 0)"
proof -
  have e2: "env_num (example_runtime 2 ''SingleInferenceTask'' [[jetbot]]) = 2"
    and e0: "env_num (example_runtime 0 ''SingleInferenceTask'' [[jetbot]]) = 0"
    by (simp_all add: example_runtime_def)
  show ?thesis
    using multi_env_rejected [OF example_spaces,
        of 2 "[[jetbot]]" example_new_runner 0]
      multi_env_rejected [OF example_spaces,
        of 0 "[[jetbot]]" example_new_runner 0]
    by (simp add: e2 e0)
qed

text \<open>
  C6, as stated, fails when an episode with two robots comes after two episodes that
  name different robots: the loop raises at the first offending episode, here with the
  multiple-agents error and not with the robot count of the third episode.
\<close>

theorem heterogeneous_before_multi_agent:
  "episodes (task_config (config
      (example_runtime 1 ''SingleInferenceTask'' [[jetbot], [aliengo], [jetbot, aliengo]]))) ! 2
     = \<lparr>robots = [jetbot, aliengo]\<rparr> \<and>
   length (robots \<lparr>robots = [jetbot, aliengo]\<rparr>) = 2 \<and>
   init example_space example_new_runner
      (example_runtime 1 ''SingleInferenceTask'' [[jetbot], [aliengo], [jetbot, aliengo]])
     = Inl ValueError_multiple_agents \<and>
   init example_space example_new_runner
      (example_runtime 1 ''SingleInferenceTask'' [[jetbot], [aliengo], [jetbot, aliengo]])
     \<noteq> Inl (ValueError_agents 2)"
  by (simp add: init_def validate_def example_space_def example_new_runner_def
      example_runtime_def jetbot_def aliengo_def)

text \<open>
  C6 (amended). For a runtime with \<^verbatim>\<open>env_num\<close> at most 1 and a task type the space
  utility resolves: if an episode's robot list has a length other than 1 and every
  episode before it has exactly one robot, all of one name, the construction raises the
  single-agent \<^verbatim>\<open>ValueError\<close> with that episode's robot count; if every episode has
  exactly one robot and two episodes give different robot names, the construction raises
  the multiple-agents \<^verbatim>\<open>ValueError\<close>.
\<close>

theorem agents_rejected:
  assumes "env_num rt \<le> 1"
    and "get_action_space_by_task (sp :: ('sp, 'x) space) (type (task_config (config rt))) = Inr a"
    and "get_observation_space_by_task sp (type (task_config (config rt))) = Inr b"
  shows "(episodes (task_config (config rt)) = pre @ ep # post \<and>
          (\<forall>e\<in>set pre. \<exists>r. robots e = [r] \<and> RobotCfg.name r = n) \<and>
          length (robots ep) \<noteq> 1
          \<longrightarrow> init sp new_runner rt = Inl (ValueError_agents (length (robots ep)))) \<and>
         ((\<forall>e\<in>set (episodes (task_config (config rt))). length (robots e) = 1) \<and>
          e1 \<in> set (episodes (task_config (config rt))) \<and>
          e2 \<in> set (episodes (task_config (config rt))) \<and>
          RobotCfg.name (robots e1 ! 0) = Some n1 \<and>
          RobotCfg.name (robots e2 ! 0) = Some n2 \<and> n1 \<noteq> n2
          \<longrightarrow> init sp new_runner rt = Inl ValueError_multiple_agents)"
proof (intro conjI impI)
  assume h: "episodes (task_config (config rt)) = pre @ ep # post \<and>
          (\<forall>e\<in>set pre. \<exists>r. robots e = [r] \<and> RobotCfg.name r = n) \<and>
          length (robots ep) \<noteq> 1"
  then obtain acc' where "validate_episodes pre None = (Inr acc' :: 'x error + string option)"
    using validate_episodes_same_name [of pre n None] by blast
  with h have "validate_episodes (episodes (task_config (config rt))) None
                 = (Inl (ValueError_agents (length (robots ep))) :: 'x error + string option)"
    by (simp add: validate_episodes_append)
  then have "validate rt = (Inl (ValueError_agents (length (robots ep))) :: 'x error + string)"
    using assms(1) by (simp add: validate_def)
  then show "init sp new_runner rt = Inl (ValueError_agents (length (robots ep)))"
    by (simp add: init_after_spaces [OF assms(2,3)])
next
  assume h: "(\<forall>e\<in>set (episodes (task_config (config rt))). length (robots e) = 1) \<and>
          e1 \<in> set (episodes (task_config (config rt))) \<and>
          e2 \<in> set (episodes (task_config (config rt))) \<and>
          RobotCfg.name (robots e1 ! 0) = Some n1 \<and>
          RobotCfg.name (robots e2 ! 0) = Some n2 \<and> n1 \<noteq> n2"
  then have "validate_episodes (episodes (task_config (config rt))) None
                 = (Inl ValueError_multiple_agents :: 'x error + string option)"
    using validate_episodes_two_names [of "episodes (task_config (config rt))" e1 e2 n1 n2]
    by blast
  then have "validate rt = (Inl ValueError_multiple_agents :: 'x error + string)"
    using assms(1) by (simp add: validate_def)
  then show "init sp new_runner rt = Inl ValueError_multiple_agents"
    by (simp add: init_after_spaces [OF assms(2,3)])
qed

theorem agents_rejected_witness:
  "init example_space example_new_runner
      (example_runtime 1 ''SingleInferenceTask'' [[jetbot], [jetbot, aliengo], [aliengo]])
     = Inl (ValueError_agents 2) \<and>
   init example_space example_new_runner
      (example_runtime 1 ''SingleInferenceTask'' [[jetbot], [aliengo]])
     = Inl ValueError_multiple_agents"
proof -
  have e: "env_num (example_runtime 1 ''SingleInferenceTask'' rs) \<le> 1" for rs
    by (simp add: example_runtime_def)
  have a1: "episodes (task_config (config
              (example_runtime 1 ''SingleInferenceTask'' [[jetbot], [jetbot, aliengo], [aliengo]])))
            = [\<lparr>robots = [jetbot]\<rparr>] @ \<lparr>robots = [jetbot, aliengo]\<rparr> # [\<lparr>robots = [aliengo]\<rparr>]"
    by (simp add: example_runtime_def)
  have a2: "\<forall>e\<in>set [\<lparr>robots = [jetbot]\<rparr>]. \<exists>r. robots e = [r] \<and> RobotCfg.name r = Some ''jetbot''"
    by (simp add: jetbot_def)
  have a3: "length (robots \<lparr>robots = [jetbot, aliengo]\<rparr>) \<noteq> 1"
    by simp
  have a: "init example_space example_new_runner
      (example_runtime 1 ''SingleInferenceTask'' [[jetbot], [jetbot, aliengo], [aliengo]])
     = Inl (ValueError_agents (length (robots \<lparr>robots = [jetbot, aliengo]\<rparr>)))"
    using agents_rejected [OF e example_spaces, THEN conjunct1, rule_format,
        OF conjI [OF a1 conjI [OF a2 a3]]] .
  have b0: "episodes (task_config (config
              (example_runtime 1 ''SingleInferenceTask'' [[jetbot], [aliengo]])))
            = [\<lparr>robots = [jetbot]\<rparr>, \<lparr>robots = [aliengo]\<rparr>]"
    by (simp add: example_runtime_def)
  have b1: "\<forall>e\<in>set (episodes (task_config (config
              (example_runtime 1 ''SingleInferenceTask'' [[jetbot], [aliengo]])))).
              length (robots e) = 1"
    by (simp add: b0)
  have b2: "\<lparr>robots = [jetbot]\<rparr> \<in> set (episodes (task_config (config
              (example_runtime 1 ''SingleInferenceTask'' [[jetbot], [aliengo]]))))"
    and b3: "\<lparr>robots = [aliengo]\<rparr> \<in> set (episodes (task_config (config
              (example_runtime 1 ''SingleInferenceTask'' [[jetbot], [aliengo]]))))"
    by (simp_all add: b0)
  have b4: "RobotCfg.name (robots \<lparr>robots = [jetbot]\<rparr> ! 0) = Some ''jetbot''"
    and b5: "RobotCfg.name (robots \<lparr>robots = [aliengo]\<rparr> ! 0) = Some ''aliengo''"
    by (simp_all add: jetbot_def aliengo_def)
  have b6: "''jetbot'' \<noteq> ''aliengo''"
    by simp
  have b: "init example_space example_new_runner
      (example_runtime 1 ''SingleInferenceTask'' [[jetbot], [aliengo]])
     = Inl ValueError_multiple_agents"
    using agents_rejected [OF e example_spaces, THEN conjunct2, rule_format,
        OF conjI [OF b1 conjI [OF b2 conjI [OF b3 conjI [OF b4 conjI [OF b5 b6]]]]]] .
  from a b show ?thesis by simp
qed

text \<open>
  C9. The construction resolves the action space, then the observation space, before
  \<^verbatim>\<open>_validate\<close> runs. When the space utility raises on the task type, the construction
  ends with that exception, whatever \<^verbatim>\<open>env_num\<close> and the episodes are, and not with the
  error \<^verbatim>\<open>_validate\<close> raises on the same runtime.
\<close>

theorem spaces_resolved_first:
  assumes "get_action_space_by_task sp (type (task_config (config rt))) = Inl e \<or>
           (get_action_space_by_task sp (type (task_config (config rt))) = Inr a \<and>
            get_observation_space_by_task sp (type (task_config (config rt))) = Inl e)"
  shows "init sp new_runner rt = Inl (Raised e) \<and>
         (validate rt = Inl v \<longrightarrow> init sp new_runner rt \<noteq> Inl v)"
proof -
  have i: "init sp new_runner rt = Inl (Raised e)"
    using assms by (auto simp: init_def)
  have "v \<noteq> Raised e" if "validate rt = Inl v"
    using validate_error [OF that] by auto
  with i show ?thesis by auto
qed

theorem spaces_resolved_first_witness:
  "get_action_space_by_task example_space
      (type (task_config (config (example_runtime 2 ''UnknownTask'' [[jetbot, aliengo]]))))
     = Inl ''unknown task type'' \<and>
   validate (example_runtime 2 ''UnknownTask'' [[jetbot, aliengo]])
     = (Inl (ValueError_env_num 2) :: string error + string) \<and>
   init example_space example_new_runner (example_runtime 2 ''UnknownTask'' [[jetbot, aliengo]])
     = Inl (Raised ''unknown task type'')"
proof -
  have h: "get_action_space_by_task example_space
      (type (task_config (config (example_runtime 2 ''UnknownTask'' [[jetbot, aliengo]]))))
     = Inl ''unknown task type''"
    by (simp add: example_space_def example_runtime_def)
  have v: "validate (example_runtime 2 ''UnknownTask'' [[jetbot, aliengo]])
     = (Inl (ValueError_env_num 2) :: string error + string)"
    by (simp add: validate_def example_runtime_def)
  show ?thesis
    using h v spaces_resolved_first [OF disjI1 [OF h], of example_new_runner "ValueError_env_num 2"]
    by simp
qed

text \<open>
  C10. With \<^verbatim>\<open>env_num = 1\<close>, no episode and a task type the space utility resolves,
  \<^verbatim>\<open>_validate\<close> raises nothing and the construction returns an object whose
  \<^verbatim>\<open>_robot_name\<close> is \<open>None_0\<close>: the local \<^verbatim>\<open>robot_name\<close> is still \<^verbatim>\<open>None\<close> when the
  f-string formats it. (The constructor of the runner is taken to return.)
\<close>

theorem no_episode_gives_None_0:
  assumes "env_num rt = 1"
    and "episodes (task_config (config rt)) = []"
    and "get_action_space_by_task (sp :: ('sp, 'x) space) (type (task_config (config rt))) = Inr a"
    and "get_observation_space_by_task sp (type (task_config (config rt))) = Inr b"
    and "new_runner rt = Inr r"
  shows "validate rt = (Inr ''None_0'' :: 'x error + string) \<and>
         init sp new_runner rt =
           Inr \<lparr>is_render = None, runtime = rt, robot_name = ''None_0'',
                current_task_name = None, action_space = a,
                observation_space = b, runner = r\<rparr>"
proof -
  have v': "validate rt = (Inr ''None_0'' :: 'x error + string)"
    using assms(1,2) by (simp add: validate_def format_optional_str_def)
  show ?thesis
    using v' assms(5) by (simp add: init_after_spaces [OF assms(3,4)])
qed

theorem no_episode_gives_None_0_witness:
  "env_num (example_runtime 1 ''SingleInferenceTask'' []) = 1 \<and>
   episodes (task_config (config (example_runtime 1 ''SingleInferenceTask'' []))) = [] \<and>
   init example_space example_new_runner (example_runtime 1 ''SingleInferenceTask'' [])
     = Inr \<lparr>is_render = None, runtime = example_runtime 1 ''SingleInferenceTask'' [],
            robot_name = ''None_0'', current_task_name = None,
            action_space = ''action space'', observation_space = ''observation space'',
            runner = []\<rparr>"
proof -
  have e: "env_num (example_runtime 1 ''SingleInferenceTask'' []) = 1"
    and n: "episodes (task_config (config (example_runtime 1 ''SingleInferenceTask'' []))) = []"
    by (simp_all add: example_runtime_def)
  have r: "example_new_runner (example_runtime 1 ''SingleInferenceTask'' []) = Inr []"
    by (simp add: example_new_runner_def)
  show ?thesis
    using e n no_episode_gives_None_0 [where new_runner = example_new_runner, OF e n example_spaces(1) [of 1 "[]"] example_spaces(2) [of 1 "[]"] r] by simp
qed

subsection \<open>Reset\<close>

text \<open>
  C2. For every object and every runner: when the runner's \<^verbatim>\<open>reset\<close>, called with the
  remembered \<^verbatim>\<open>_current_task_name\<close>, returns a descriptor named \<open>T\<close> and observations
  that hold \<open>obsX\<close> under \<open>T\<close> and the object's robot name, \<^verbatim>\<open>Env.reset\<close> returns \<open>obsX\<close>
  with an info that maps \<^verbatim>\<open>'task_runtime'\<close> to the descriptor, and leaves
  \<^verbatim>\<open>_current_task_name\<close> set to \<open>T\<close>.
\<close>

theorem reset_with_task:
  assumes "runner_reset R (current_task_name self) (runner self)
             = (Inr (origin_obs, Some task_runtime), r)"
    and "TaskRuntime.name task_runtime = T"
    and "origin_obs T = Some robots_obs"
    and "robots_obs (robot_name self) = Some obsX"
  shows "reset R self
           = (Inr (obsX, [''task_runtime'' \<mapsto> task_runtime]),
              self\<lparr>runner := r, current_task_name := Some T\<rparr>)"
  using assms by (simp add: reset_def getitem_def RESET_INFO_TASK_RUNTIME_def)

theorem reset_with_task_witness:
  "runner_reset recording_runner (current_task_name (example_env None)) (runner (example_env None))
     = (Inr ([''T'' \<mapsto> [''jetbot_0'' \<mapsto> [''position'' \<mapsto> ''origin'']]],
             Some \<lparr>TaskRuntime.name = ''T''\<rparr>), []) \<and>
   reset recording_runner (example_env None)
     = (Inr ([''position'' \<mapsto> ''origin''], [''task_runtime'' \<mapsto> \<lparr>TaskRuntime.name = ''T''\<rparr>]),
        example_env (Some ''T''))"
proof -
  have h1: "runner_reset recording_runner (current_task_name (example_env None))
              (runner (example_env None))
            = (Inr ([''T'' \<mapsto> [''jetbot_0'' \<mapsto> [''position'' \<mapsto> ''origin'']]],
                    Some \<lparr>TaskRuntime.name = ''T''\<rparr>), [])"
    by (simp add: recording_runner_def example_env_def)
  have h2: "TaskRuntime.name \<lparr>TaskRuntime.name = ''T''\<rparr> = ''T''"
    by simp
  have h3: "[''T'' \<mapsto> [''jetbot_0'' \<mapsto> [''position'' \<mapsto> ''origin'']]] ''T''
            = Some [''jetbot_0'' \<mapsto> [''position'' \<mapsto> ''origin'']]"
    by simp
  have h4: "[''jetbot_0'' \<mapsto> [''position'' \<mapsto> ''origin'']] (robot_name (example_env None))
            = Some [''position'' \<mapsto> ''origin'']"
    by (simp add: example_env_def)
  have e: "(example_env None)\<lparr>runner := [], current_task_name := Some ''T''\<rparr>
           = example_env (Some ''T'')"
    by (simp add: example_env_def)
  show ?thesis
    using h1 reset_with_task [OF h1 h2 h3 h4] by (simp only: e simp_thms)
qed

text \<open>
  C5. When the runner's \<^verbatim>\<open>reset\<close> returns no descriptor, \<^verbatim>\<open>Env.reset\<close> returns the
  empty observation and the empty info, and \<^verbatim>\<open>_current_task_name\<close> is what it was
  before the call: it is not cleared, also when it is the name of a task that is over.
\<close>

theorem reset_without_task:
  assumes "runner_reset R (current_task_name self) (runner self) = (Inr (origin_obs, None), r)"
  shows "reset R self = (Inr (Map.empty, Map.empty), self\<lparr>runner := r\<rparr>) \<and>
         current_task_name (snd (reset R self)) = current_task_name self"
  using assms by (simp add: reset_def)

theorem reset_without_task_witness:
  "runner_reset exhausted_runner (current_task_name (example_env (Some ''T'')))
       (runner (example_env (Some ''T'')))
     = (Inr (Map.empty, None), []) \<and>
   reset exhausted_runner (example_env (Some ''T''))
     = (Inr (Map.empty, Map.empty), example_env (Some ''T'')) \<and>
   current_task_name (snd (reset exhausted_runner (example_env (Some ''T'')))) = Some ''T''"
proof -
  have h: "runner_reset exhausted_runner (current_task_name (example_env (Some ''T'')))
             (runner (example_env (Some ''T'')))
           = (Inr (Map.empty, None), [])"
    by (simp add: exhausted_runner_def example_env_def)
  have e: "(example_env (Some ''T''))\<lparr>runner := []\<rparr> = example_env (Some ''T'')"
    by (simp add: example_env_def)
  have c: "current_task_name (example_env (Some ''T'')) = Some ''T''"
    by (simp add: example_env_def)
  show ?thesis
    using h reset_without_task [OF h] by (simp only: e c simp_thms snd_conv)
qed

subsection \<open>Step\<close>

text \<open>
  C4. With no active task (\<^verbatim>\<open>_current_task_name is None\<close>, as before any successful
  reset), \<^verbatim>\<open>step\<close> returns the empty observation, reward \<open>0.0\<close>, terminated, not truncated
  and the empty info, for every action. The runner is not called: the result is the same
  for every runner, and the object, with the runner's state in it, is as it was.
\<close>

theorem step_without_task:
  assumes "current_task_name self = None"
  shows "step R action self = (Inr (Map.empty, 0, True, False, Map.empty), self)"
  using assms by (simp add: step_def)

theorem step_without_task_witness:
  "current_task_name (example_env None) = None \<and>
   step exhausted_runner ''forward'' (example_env None)
     = (Inr (Map.empty, 0, True, False, Map.empty), example_env None)"
  using step_without_task [of "example_env None" exhausted_runner "''forward''"]
  by (simp add: example_env_def)

text \<open>
  C3. With the active task \<open>T\<close>, \<^verbatim>\<open>step\<close> hands the runner's \<^verbatim>\<open>step\<close> the map that
  holds the action under \<open>T\<close> and the object's robot name, and returns the observation
  found under these two keys, reward \<open>0.0\<close>, the terminated flag of \<open>T\<close>, truncated
  \<open>False\<close> and the empty info. The runner matters only through its answer to that one
  map: two runners that agree on it give the same \<^verbatim>\<open>step\<close>. Whenever \<^verbatim>\<open>step\<close> returns,
  the reward is \<open>0.0\<close>, truncated is \<open>False\<close> and the info is empty.
\<close>

theorem step_with_task:
  "(current_task_name self = Some T \<and>
    runner_step R [T \<mapsto> [robot_name self \<mapsto> action]] (runner self)
      = (Inr (origin_obs, terminated_status), r) \<and>
    origin_obs T = Some robots_obs \<and> robots_obs (robot_name self) = Some obsY \<and>
    terminated_status T = Some terminated
    \<longrightarrow> step R action self = (Inr (obsY, 0, terminated, False, Map.empty), self\<lparr>runner := r\<rparr>)) \<and>
   (current_task_name self = Some T \<and>
    runner_step R' [T \<mapsto> [robot_name self \<mapsto> action]] (runner self)
      = runner_step R [T \<mapsto> [robot_name self \<mapsto> action]] (runner self)
    \<longrightarrow> step R' action self = step R action self) \<and>
   (step R action self = (Inr (obs, reward, term, truncated, info), self')
    \<longrightarrow> reward = 0 \<and> \<not> truncated \<and> info = Map.empty)"
proof (intro conjI impI)
  assume "current_task_name self = Some T \<and>
    runner_step R [T \<mapsto> [robot_name self \<mapsto> action]] (runner self)
      = (Inr (origin_obs, terminated_status), r) \<and>
    origin_obs T = Some robots_obs \<and> robots_obs (robot_name self) = Some obsY \<and>
    terminated_status T = Some terminated"
  then show "step R action self = (Inr (obsY, 0, terminated, False, Map.empty), self\<lparr>runner := r\<rparr>)"
    by (simp add: step_def getitem_def)
next
  assume "current_task_name self = Some T \<and>
    runner_step R' [T \<mapsto> [robot_name self \<mapsto> action]] (runner self)
      = runner_step R [T \<mapsto> [robot_name self \<mapsto> action]] (runner self)"
  then show "step R' action self = step R action self"
    by (simp add: step_def)
next
  assume a: "step R action self = (Inr (obs, reward, term, truncated, info), self')"
  then show "reward = 0" 
    by (auto simp add: step_def Let_def split: option.splits sum.splits prod.splits)
  from a show "\<not> truncated"
    by (auto simp add: step_def Let_def split: option.splits sum.splits prod.splits)
  from a show "info = Map.empty"
    by (auto simp add: step_def Let_def split: option.splits sum.splits prod.splits)
qed

theorem step_with_task_witness:
  "current_task_name (example_env (Some ''T'')) = Some ''T'' \<and>
   robot_name (example_env (Some ''T'')) = ''jetbot_0'' \<and>
   runner_step recording_runner [''T'' \<mapsto> [''jetbot_0'' \<mapsto> ''forward'']] []
     = (Inr ([''T'' \<mapsto> [''jetbot_0'' \<mapsto> [''last_action'' \<mapsto> ''forward'']]], [''T'' \<mapsto> True]),
        [[''T'' \<mapsto> [''jetbot_0'' \<mapsto> ''forward'']]]) \<and>
   step recording_runner ''forward'' (example_env (Some ''T''))
     = (Inr ([''last_action'' \<mapsto> ''forward''], 0, True, False, Map.empty),
        (example_env (Some ''T''))\<lparr>runner := [[''T'' \<mapsto> [''jetbot_0'' \<mapsto> ''forward'']]]\<rparr>) \<and>
   step (recording_runner\<lparr>runner_reset := runner_reset exhausted_runner\<rparr>) ''forward''
      (example_env (Some ''T''))
     = (Inr ([''last_action'' \<mapsto> ''forward''], 0, True, False, Map.empty),
        (example_env (Some ''T''))\<lparr>runner := [[''T'' \<mapsto> [''jetbot_0'' \<mapsto> ''forward'']]]\<rparr>)"
proof -
  have c: "current_task_name (example_env (Some ''T'')) = Some ''T''"
    by (simp add: example_env_def)
  have n: "robot_name (example_env (Some ''T'')) = ''jetbot_0''"
    by (simp add: example_env_def)
  have r0: "runner (example_env (Some ''T'')) = []"
    by (simp add: example_env_def)
  have s: "runner_step recording_runner [''T'' \<mapsto> [''jetbot_0'' \<mapsto> ''forward'']] []
           = (Inr ([''T'' \<mapsto> [''jetbot_0'' \<mapsto> [''last_action'' \<mapsto> ''forward'']]],
                   [''T'' \<mapsto> True]),
              [[''T'' \<mapsto> [''jetbot_0'' \<mapsto> ''forward'']]])"
    by (simp add: recording_runner_def)
  have o1: "[''T'' \<mapsto> [''jetbot_0'' \<mapsto> [''last_action'' \<mapsto> ''forward'']]] ''T''
            = Some [''jetbot_0'' \<mapsto> [''last_action'' \<mapsto> ''forward'']]"
    by simp
  have o2: "[''jetbot_0'' \<mapsto> [''last_action'' \<mapsto> ''forward'']]
              (robot_name (example_env (Some ''T'')))
            = Some [''last_action'' \<mapsto> ''forward'']"
    by (simp add: n)
  have t: "[''T'' \<mapsto> True] ''T'' = Some True"
    by simp
  have s': "runner_step recording_runner
              [''T'' \<mapsto> [robot_name (example_env (Some ''T'')) \<mapsto> ''forward'']]
              (runner (example_env (Some ''T'')))
            = (Inr ([''T'' \<mapsto> [''jetbot_0'' \<mapsto> [''last_action'' \<mapsto> ''forward'']]],
                    [''T'' \<mapsto> True]),
               [[''T'' \<mapsto> [''jetbot_0'' \<mapsto> ''forward'']]])"
    by (simp only: n r0 s)
  have a: "runner_step (recording_runner\<lparr>runner_reset := runner_reset exhausted_runner\<rparr>)
              [''T'' \<mapsto> [robot_name (example_env (Some ''T'')) \<mapsto> ''forward'']]
              (runner (example_env (Some ''T'')))
           = runner_step recording_runner
              [''T'' \<mapsto> [robot_name (example_env (Some ''T'')) \<mapsto> ''forward'']]
              (runner (example_env (Some ''T'')))"
    by simp
  have b: "step (recording_runner\<lparr>runner_reset := runner_reset exhausted_runner\<rparr>) ''forward''
             (example_env (Some ''T''))
           = step recording_runner ''forward'' (example_env (Some ''T''))"
    using step_with_task [THEN conjunct2, THEN conjunct1, rule_format, OF conjI [OF c a]] .
  have "step recording_runner ''forward'' (example_env (Some ''T''))
     = (Inr ([''last_action'' \<mapsto> ''forward''], 0, True, False, Map.empty),
        (example_env (Some ''T''))\<lparr>runner := [[''T'' \<mapsto> [''jetbot_0'' \<mapsto> ''forward'']]]\<rparr>)"
    using step_with_task [THEN conjunct1, rule_format, OF conjI [OF c conjI [OF s' conjI [OF o1 conjI [OF o2 t]]]]]
    .
  with c n s b show ?thesis by (simp only: simp_thms)
qed

text \<open>
  C8. \<^verbatim>\<open>step\<close> never assigns \<^verbatim>\<open>_current_task_name\<close>, whatever the action and whatever
  the runner answers (a raise and a terminated task included); of all the calls on the
  object only \<^verbatim>\<open>reset\<close> can change it.
\<close>

theorem step_keeps_current_task_name:
  "current_task_name (snd (step R action self)) = current_task_name self \<and>
   (c \<noteq> Reset \<longrightarrow> current_task_name (do_call R app_close c self) = current_task_name self)"
proof -
  have s: "current_task_name (snd (step R a self)) = current_task_name self" for a
    by (simp add: step_def Let_def split: option.split sum.split prod.split)
  have g: "current_task_name (snd (get_observations R self)) = current_task_name self"
    by (simp add: get_observations_def Let_def split: option.split sum.split prod.split)
  have k: "current_task_name (snd (close app_close self)) = current_task_name self"
    by (simp add: close_def split: prod.split)
  show ?thesis using s g k by (cases c) simp_all
qed

theorem step_keeps_current_task_name_witness:
  "fst (step recording_runner ''forward'' (example_env (Some ''T'')))
     = Inr ([''last_action'' \<mapsto> ''forward''], 0, True, False, Map.empty) \<and>
   current_task_name (snd (step recording_runner ''forward'' (example_env (Some ''T'')))) = Some ''T'' \<and>
   Close \<noteq> Reset \<and>
   current_task_name (do_call recording_runner example_app_close Close (example_env (Some ''T'')))
     = Some ''T''"
  using step_keeps_current_task_name
    [of recording_runner "''forward''" "example_env (Some ''T'')" Close example_app_close]
  by (simp add: step_def recording_runner_def example_env_def getitem_def)

subsection \<open>The robot name over a lifetime\<close>

lemma do_call_robot_name:
  "robot_name (do_call R app_close c self) = robot_name self"
proof (cases c)
  case Reset
  then show ?thesis
    by (simp add: reset_def Let_def split: option.split sum.split prod.split)
next
  case (Step a)
  then show ?thesis
    by (simp add: step_def Let_def split: option.split sum.split prod.split)
next
  case Get_observations
  then show ?thesis
    by (simp add: get_observations_def Let_def split: option.split sum.split prod.split)
next
  case Close
  then show ?thesis
    by (simp add: close_def split: prod.split)
qed simp_all

lemma do_calls_robot_name:
  "robot_name (do_calls R app_close cs self) = robot_name self"
  by (induction cs arbitrary: self) (simp_all add: do_call_robot_name)

text \<open>
  C7. When the construction succeeds on a configuration with at least one episode whose
  robots are all named \<open>N\<close>, \<^verbatim>\<open>_robot_name\<close> is \<open>N_0\<close>, and it is still \<open>N_0\<close> after
  any sequence of \<^verbatim>\<open>reset\<close>, \<^verbatim>\<open>step\<close>, \<^verbatim>\<open>get_observations\<close>, \<^verbatim>\<open>get_dt\<close>,
  \<^verbatim>\<open>finished\<close>, \<^verbatim>\<open>close\<close> and \<^verbatim>\<open>render\<close>, with any runner.
\<close>

theorem robot_name_fixed:
  assumes "init (sp :: ('sp, 'x) space) new_runner rt = Inr self"
    and "episodes (task_config (config rt)) \<noteq> []"
    and "\<forall>e\<in>set (episodes (task_config (config rt))). \<forall>r\<in>set (robots e). RobotCfg.name r = Some N"
  shows "robot_name self = N @ ''_0'' \<and>
         robot_name (do_calls R app_close cs self) = N @ ''_0''"
proof -
  have v: "validate rt = (Inr (robot_name self) :: 'x error + string)"
    by (rule init_robot_name [OF assms(1)])
  then obtain rn where rn: "validate_episodes (episodes (task_config (config rt))) None
                              = (Inr rn :: 'x error + string option)"
    and nm: "robot_name self = format_optional_str rn @ ''_0''"
    by (auto simp: validate_def split: if_splits sum.splits)
  have "rn = Some N"
    using validate_episodes_named [OF assms(3) rn] assms(2) by simp
  with nm have "robot_name self = N @ ''_0''"
    by (simp add: format_optional_str_def)
  then show ?thesis
    by (simp add: do_calls_robot_name)
qed

theorem robot_name_fixed_witness:
  "init example_space example_new_runner (example_runtime 1 ''SingleInferenceTask'' [[jetbot]])
     = Inr (example_env None) \<and>
   robot_name (example_env None) = ''jetbot_0'' \<and>
   robot_name (do_calls recording_runner example_app_close
      [Reset, Step ''forward'', Get_observations, Get_dt, Finished, Render ''human'', Close]
      (example_env None)) = ''jetbot_0''"
proof -
  have n: "episodes (task_config (config (example_runtime 1 ''SingleInferenceTask'' [[jetbot]]))) \<noteq> []"
    by (simp add: example_runtime_def)
  have a: "\<forall>e\<in>set (episodes (task_config (config
              (example_runtime 1 ''SingleInferenceTask'' [[jetbot]])))).
            \<forall>r\<in>set (robots e). RobotCfg.name r = Some ''jetbot''"
    by (simp add: example_runtime_def jetbot_def)
  show ?thesis
    using example_env_constructed
      robot_name_fixed [OF example_env_constructed n a, of recording_runner example_app_close
        "[Reset, Step ''forward'', Get_observations, Get_dt, Finished, Render ''human'', Close]"]
    by simp
qed

end
